theory Spec2Isabelle
  imports Complex_Main
begin

section \<open>Kieskompas coalition picker: the selection and aggregation controller\<close>

text \<open>
  A shallow embedding of \<^verbatim>\<open>UIController\<close> of \<^verbatim>\<open>kieskompas/parser.js\<close>.
  Conventions of the model:
  \<^item> a finite JavaScript number is a \<^typ>\<open>real\<close>: the rounding of IEEE doubles is left out,
    the non-finite results of \<^verbatim>\<open>/\<close> are kept (type \<open>jsnum\<close>);
  \<^item> seat counts and axis percentages are \<^typ>\<open>nat\<close>: the extractor writes the first from a
    table of non-negative integers and reads the second with \<^verbatim>\<open>parseInt\<close> on \<^verbatim>\<open>\d+\<close>;
  \<^item> a string is a list of ASCII characters;
  \<^item> \<^verbatim>\<open>null\<close> is \<open>None\<close>;
  \<^item> the \<^verbatim>\<open>Set\<close> of selected indices is the list of its elements in insertion order;
  \<^item> reading a field of \<^verbatim>\<open>this.parties[index]\<close> with the index out of range throws a
    \<^verbatim>\<open>TypeError\<close>, which is the value \<open>Inl TypeError\<close>.
\<close>

subsection \<open>Numbers\<close>

datatype jsnum = Fin real | NaN | PosInf | NegInf

text \<open>\<^verbatim>\<open>a / b\<close> on finite operands; the divisors of this program are sums that start at
  \<^verbatim>\<open>+0\<close>, so a zero divisor is \<^verbatim>\<open>+0\<close>.\<close>

definition js_div :: "real \<Rightarrow> real \<Rightarrow> jsnum" where
  "js_div a b =
     (if b \<noteq> 0 then Fin (a / b)
      else if a = 0 then NaN
      else if 0 < a then PosInf
      else NegInf)"

text \<open>\<^verbatim>\<open>v >= 0\<close>\<close>

fun js_ge0 :: "jsnum \<Rightarrow> bool" where
  "js_ge0 (Fin r) = (0 \<le> r)"
| "js_ge0 NaN = False"
| "js_ge0 PosInf = True"
| "js_ge0 NegInf = False"

text \<open>\<^verbatim>\<open>Math.abs(v)\<close>\<close>

fun js_abs :: "jsnum \<Rightarrow> jsnum" where
  "js_abs (Fin r) = Fin \<bar>r\<bar>"
| "js_abs NaN = NaN"
| "js_abs PosInf = PosInf"
| "js_abs NegInf = PosInf"

text \<open>\<^verbatim>\<open>v + c\<close> for a finite \<^verbatim>\<open>c\<close>\<close>

fun js_plus :: "jsnum \<Rightarrow> real \<Rightarrow> jsnum" where
  "js_plus (Fin r) c = Fin (r + c)"
| "js_plus NaN c = NaN"
| "js_plus PosInf c = PosInf"
| "js_plus NegInf c = NegInf"

text \<open>The decimal digits of a natural number.\<close>

fun show_nat :: "nat \<Rightarrow> string" where
  "show_nat n =
     (if n < 10 then [''0123456789'' ! n]
      else show_nat (n div 10) @ [''0123456789'' ! (n mod 10)])"

declare show_nat.simps [simp del]

text \<open>\<^verbatim>\<open>v.toFixed(1)\<close>: the sign, then the integer \<open>n\<close> with \<open>n / 10\<close> nearest to the
  magnitude (the larger one on a tie), printed with one decimal. From \<open>10\<^sup>2\<^sup>1\<close> on
  JavaScript prints the exponent notation of \<^verbatim>\<open>String(v)\<close>, which is not modelled: the
  result is \<open>None\<close> there.\<close>

definition toFixed1_digits :: "real \<Rightarrow> string" where
  "toFixed1_digits x =
     (let n = nat \<lfloor>x * 10 + 1 / 2\<rfloor>
      in show_nat (n div 10) @ ''.'' @ show_nat (n mod 10))"

fun toFixed1 :: "jsnum \<Rightarrow> string option" where
  "toFixed1 (Fin r) =
     (if 10 ^ 21 \<le> \<bar>r\<bar> then None
      else if r < 0 then Some (''-'' @ toFixed1_digits (- r))
      else Some (toFixed1_digits r))"
| "toFixed1 NaN = Some ''NaN''"
| "toFixed1 PosInf = Some ''Infinity''"
| "toFixed1 NegInf = Some ''-Infinity''"

subsection \<open>Strings\<close>

text \<open>\<^verbatim>\<open>s.toUpperCase()\<close> on ASCII.\<close>

definition toUpperChar :: "char \<Rightarrow> char" where
  "toUpperChar c =
     (case map_of (zip ''abcdefghijklmnopqrstuvwxyz'' ''ABCDEFGHIJKLMNOPQRSTUVWXYZ'') c of
        None \<Rightarrow> c
      | Some u \<Rightarrow> u)"

definition toUpperCase :: "string \<Rightarrow> string" where
  "toUpperCase s = map toUpperChar s"

text \<open>\<^verbatim>\<open>s.trim()\<close>: the ASCII white space and line terminators (tab, line feed, vertical
  tab, form feed, carriage return, space) are removed at both ends.\<close>

definition isWhiteSpace :: "char \<Rightarrow> bool" where
  "isWhiteSpace c \<longleftrightarrow> c \<in> set [CHR 0x09, CHR 0x0A, CHR 0x0B, CHR 0x0C, CHR 0x0D, CHR '' '']"

definition js_trim :: "string \<Rightarrow> string" where
  "js_trim s = rev (dropWhile isWhiteSpace (rev (dropWhile isWhiteSpace s)))"

text \<open>\<^verbatim>\<open>s.split(",")\<close>: the pieces between the commas; the empty string gives one empty
  piece. The result is never empty, so the first case of the inner \<open>case\<close> is not taken.\<close>

fun js_split :: "string \<Rightarrow> string list" where
  "js_split [] = [[]]"
| "js_split (c # cs) =
     (if c = CHR '','' then [] # js_split cs
      else (case js_split cs of [] \<Rightarrow> [[c]] | w # ws \<Rightarrow> (c # w) # ws))"

text \<open>\<^verbatim>\<open>xs.join(sep)\<close>\<close>

fun js_join :: "string \<Rightarrow> string list \<Rightarrow> string" where
  "js_join sep [] = []"
| "js_join sep [x] = x"
| "js_join sep (x # y # ys) = x @ sep @ js_join sep (y # ys)"

subsection \<open>The query string\<close>

text \<open>\<^verbatim>\<open>URLSearchParams\<close>: the decoded name-value pairs in order. \<^verbatim>\<open>get\<close> reads the first
  pair of a name, \<^verbatim>\<open>delete\<close> removes every pair of it, \<^verbatim>\<open>set\<close> overwrites the first
  pair and removes the others, or appends a pair.\<close>

type_synonym searchParams = "(string \<times> string) list"

definition params_get :: "string \<Rightarrow> searchParams \<Rightarrow> string option" where
  "params_get k q = map_of q k"

definition params_delete :: "string \<Rightarrow> searchParams \<Rightarrow> searchParams" where
  "params_delete k q = filter (\<lambda>kv. fst kv \<noteq> k) q"

fun params_set :: "string \<Rightarrow> string \<Rightarrow> searchParams \<Rightarrow> searchParams" where
  "params_set k v [] = [(k, v)]"
| "params_set k v (kv # q) =
     (if fst kv = k then (k, v) # params_delete k q else kv # params_set k v q)"

subsection \<open>The party table\<close>

record position =
  x :: real
  y :: real

record axis =
  "value" :: nat
  direction :: string

record politicalPosition =
  horizontal :: "axis option"
  vertical :: "axis option"

record electionResults =
  seats :: nat

record party =
  name :: string
  shortName :: string
  position :: position
  politicalPosition :: politicalPosition
  electionResults2025 :: "electionResults option"

datatype error = TypeError

text \<open>\<^verbatim>\<open>this.parties[index]\<close>, followed by a field access.\<close>

definition getParty :: "party list \<Rightarrow> nat \<Rightarrow> error + party" where
  "getParty ps index = (if index < length ps then Inr (ps ! index) else Inl TypeError)"

text \<open>\<^verbatim>\<open>selectedParties.forEach(f)\<close> on accumulators \<open>s\<close>; a throw ends the loop.\<close>

primrec forEach :: "('a \<Rightarrow> 's \<Rightarrow> error + 's) \<Rightarrow> 'a list \<Rightarrow> 's \<Rightarrow> error + 's" where
  "forEach f [] s = Inr s"
| "forEach f (i # is) s = (case f i s of Inl e \<Rightarrow> Inl e | Inr s' \<Rightarrow> forEach f is s')"

subsection \<open>\<^verbatim>\<open>calculateAverage\<close>\<close>

text \<open>The body of the loop of the weighted branch, on \<open>(sumX, sumY, totalSeats)\<close>.\<close>

definition weightedStep :: "party list \<Rightarrow> nat \<Rightarrow> real \<times> real \<times> real \<Rightarrow> error + real \<times> real \<times> real" where
  "weightedStep ps index acc =
     (case getParty ps index of
        Inl e \<Rightarrow> Inl e
      | Inr p \<Rightarrow>
          (case acc of (sumX, sumY, totalSeats) \<Rightarrow>
             let seats = (case electionResults2025 p of Some r \<Rightarrow> real (seats r) | None \<Rightarrow> 1)
             in Inr (sumX + x (position p) * seats,
                     sumY + y (position p) * seats,
                     totalSeats + seats)))"

text \<open>The body of the loop of the simple branch, on \<open>(sumX, sumY)\<close>.\<close>

definition simpleStep :: "party list \<Rightarrow> nat \<Rightarrow> real \<times> real \<Rightarrow> error + real \<times> real" where
  "simpleStep ps index acc =
     (case getParty ps index of
        Inl e \<Rightarrow> Inl e
      | Inr p \<Rightarrow>
          (case acc of (sumX, sumY) \<Rightarrow>
             Inr (sumX + x (position p), sumY + y (position p))))"

text \<open>\<^verbatim>\<open>calculateAverage()\<close> on the party table, the selected indices and the state of the
  weighted-average checkbox. \<open>Inr None\<close> is \<^verbatim>\<open>null\<close>.\<close>

definition calculateAverage :: "party list \<Rightarrow> nat list \<Rightarrow> bool \<Rightarrow> error + (jsnum \<times> jsnum) option" where
  "calculateAverage ps selectedParties useWeighted =
     (if length selectedParties = 0 then Inr None
      else if useWeighted then
        (case forEach (weightedStep ps) selectedParties (0, 0, 0) of
           Inl e \<Rightarrow> Inl e
         | Inr (sumX, sumY, totalSeats) \<Rightarrow>
             Inr (Some
               (if 0 < totalSeats then js_div sumX totalSeats
                else js_div sumX (real (length selectedParties)),
                if 0 < totalSeats then js_div sumY totalSeats
                else js_div sumY (real (length selectedParties)))))
      else
        (case forEach (simpleStep ps) selectedParties (0, 0) of
           Inl e \<Rightarrow> Inl e
         | Inr (sumX, sumY) \<Rightarrow>
             Inr (Some
               (js_div sumX (real (length selectedParties)),
                js_div sumY (real (length selectedParties))))))"

subsection \<open>The seat total of \<^verbatim>\<open>handlePartySelection\<close>\<close>

text \<open>The callback of \<^verbatim>\<open>reduce\<close> (its \<^verbatim>\<open>sum\<close> is \<open>acc\<close> here), and the \<^verbatim>\<open>reduce\<close>
  from \<^verbatim>\<open>0\<close>.\<close>

definition seatStep :: "party list \<Rightarrow> nat \<Rightarrow> nat \<Rightarrow> error + nat" where
  "seatStep ps index acc =
     (case getParty ps index of
        Inl e \<Rightarrow> Inl e
      | Inr p \<Rightarrow>
          let seats = (case electionResults2025 p of Some r \<Rightarrow> seats r | None \<Rightarrow> 0)
          in Inr (acc + seats))"

definition computeSeatTotal :: "party list \<Rightarrow> nat list \<Rightarrow> error + nat" where
  "computeSeatTotal ps selectedParties = forEach (seatStep ps) selectedParties 0"

subsection \<open>\<^verbatim>\<open>updateCoalitionStats\<close>\<close>

text \<open>The constants of the loop body: \<^verbatim>\<open>weight\<close>, \<^verbatim>\<open>horizontalSigned\<close>,
  \<^verbatim>\<open>verticalSigned\<close>.\<close>

definition weight :: "bool \<Rightarrow> party \<Rightarrow> real" where
  "weight useWeighted p =
     (case electionResults2025 p of
        Some r \<Rightarrow> if useWeighted then real (seats r) else 1
      | None \<Rightarrow> 1)"

definition horizontalSigned :: "party \<Rightarrow> real" where
  "horizontalSigned p =
     (let horizontalValue =
        (case horizontal (politicalPosition p) of Some a \<Rightarrow> real (value a) | None \<Rightarrow> 0)
      in if map_option direction (horizontal (politicalPosition p)) = Some ''rechts''
         then horizontalValue else - horizontalValue)"

definition verticalSigned :: "party \<Rightarrow> real" where
  "verticalSigned p =
     (let verticalValue =
        (case vertical (politicalPosition p) of Some a \<Rightarrow> real (value a) | None \<Rightarrow> 0)
      in if map_option direction (vertical (politicalPosition p)) = Some ''conservatief''
         then verticalValue else - verticalValue)"

text \<open>The body of the loop, on \<open>(sumHorizontal, sumVertical, totalWeight)\<close>.\<close>

definition statsStep :: "party list \<Rightarrow> bool \<Rightarrow> nat \<Rightarrow> real \<times> real \<times> real \<Rightarrow> error + real \<times> real \<times> real" where
  "statsStep ps useWeighted index acc =
     (case getParty ps index of
        Inl e \<Rightarrow> Inl e
      | Inr p \<Rightarrow>
          (case acc of (sumHorizontal, sumVertical, totalWeight) \<Rightarrow>
             Inr (sumHorizontal + horizontalSigned p * weight useWeighted p,
                  sumVertical + verticalSigned p * weight useWeighted p,
                  totalWeight + weight useWeighted p)))"

text \<open>\<^verbatim>\<open>avgHorizontal\<close> and \<^verbatim>\<open>avgVertical\<close>.\<close>

definition signedAverages :: "party list \<Rightarrow> nat list \<Rightarrow> bool \<Rightarrow> error + jsnum \<times> jsnum" where
  "signedAverages ps selectedParties useWeighted =
     (case forEach (statsStep ps useWeighted) selectedParties (0, 0, 0) of
        Inl e \<Rightarrow> Inl e
      | Inr (sumHorizontal, sumVertical, totalWeight) \<Rightarrow>
          Inr (js_div sumHorizontal totalWeight, js_div sumVertical totalWeight))"

text \<open>What the template of the statistics is filled with: \<^verbatim>\<open>totalSeats\<close>,
  \<^verbatim>\<open>horizontalValue\<close>, \<^verbatim>\<open>horizontalLabel\<close>, \<^verbatim>\<open>verticalValue\<close>, \<^verbatim>\<open>verticalLabel\<close>.\<close>

record stats =
  statSeats :: nat
  statHorizontalValue :: jsnum
  statHorizontalLabel :: string
  statVerticalValue :: jsnum
  statVerticalLabel :: string

text \<open>\<^verbatim>\<open>updateCoalitionStats(totalSeats)\<close>: \<open>Inr None\<close> hides the statistics and leaves
  their content, \<open>Inr (Some s)\<close> replaces the content and shows it.\<close>

definition updateCoalitionStats :: "party list \<Rightarrow> nat list \<Rightarrow> bool \<Rightarrow> nat \<Rightarrow> error + stats option" where
  "updateCoalitionStats ps selectedParties useWeighted totalSeats =
     (if length selectedParties = 0 then Inr None
      else
        (case signedAverages ps selectedParties useWeighted of
           Inl e \<Rightarrow> Inl e
         | Inr (avgHorizontal, avgVertical) \<Rightarrow>
             Inr (Some
               \<lparr>statSeats = totalSeats,
                statHorizontalValue = js_abs avgHorizontal,
                statHorizontalLabel = (if js_ge0 avgHorizontal then ''rechts'' else ''links''),
                statVerticalValue = js_abs avgVertical,
                statVerticalLabel =
                  (if js_ge0 avgVertical then ''conservatief'' else ''progressief'')\<rparr>)))"

text \<open>The texts of the three \<^verbatim>\<open>coalition-stats-item\<close> spans.\<close>

definition statsItem :: "jsnum \<Rightarrow> string \<Rightarrow> string option" where
  "statsItem v label = map_option (\<lambda>s. s @ ''% '' @ label) (toFixed1 v)"

definition statsItems :: "stats \<Rightarrow> string option list" where
  "statsItems s =
     [Some (show_nat (statSeats s) @ '' zetels''),
      statsItem (statHorizontalValue s) (statHorizontalLabel s),
      statsItem (statVerticalValue s) (statVerticalLabel s)]"

subsection \<open>The URL\<close>

text \<open>\<^verbatim>\<open>getQueryParties()\<close>\<close>

definition getQueryParties :: "searchParams \<Rightarrow> string list" where
  "getQueryParties search =
     (case params_get ''parties'' search of
        None \<Rightarrow> []
      | Some partiesParam \<Rightarrow>
          if partiesParam = [] then []
          else map (\<lambda>p. toUpperCase (js_trim p)) (js_split partiesParam))"

text \<open>\<^verbatim>\<open>updateQueryParams(selectedShortNames)\<close>\<close>

definition updateQueryParams :: "string list \<Rightarrow> searchParams \<Rightarrow> searchParams" where
  "updateQueryParams selectedShortNames search =
     (if length selectedShortNames = 0 then params_delete ''parties'' search
      else params_set ''parties'' (js_join '','' selectedShortNames) search)"

subsection \<open>The page\<close>

text \<open>The diagram: whether it holds the \<^verbatim>\<open>.Compass__compass\<close> element, and the
  \<^verbatim>\<open>cx\<close>, \<^verbatim>\<open>cy\<close> percentages of the \<^verbatim>\<open>#averageMarker\<close> group, if there is one.\<close>

record svg =
  compass :: bool
  averageMarker :: "(jsnum \<times> jsnum) option"

text \<open>The state of the controller and of the page elements it reads and writes:
  \<open>checkboxes\<close> are the \<^verbatim>\<open>checked\<close> flags of the party picker's checkboxes in document
  order (the checkbox at place \<open>i\<close> has \<^verbatim>\<open>data-index\<close> \<open>i\<close>), \<open>weightedAverage\<close> says that
  the weighted-average checkbox is there and checked, \<open>coalitionStatsContent\<close> is \<open>None\<close>
  until the statistics are first written, \<open>svgDisplay\<close> is \<open>None\<close> without an \<^verbatim>\<open>svg\<close>
  element.\<close>

record ui =
  parties :: "party list"
  checkboxes :: "bool list"
  weightedAverage :: bool
  selectedParties :: "nat list"
  selectedCount :: string
  coalitionStatsDisplay :: bool
  coalitionStatsContent :: "stats option"
  search :: searchParams
  svgDisplay :: "svg option"

text \<open>\<^verbatim>\<open>updateCompassMarker()\<close>\<close>

definition updateCompassMarker :: "ui \<Rightarrow> error + ui" where
  "updateCompassMarker st =
     (case svgDisplay st of
        None \<Rightarrow> Inr st
      | Some d \<Rightarrow>
          let d' = d\<lparr>averageMarker := None\<rparr> in
          (case calculateAverage (parties st) (selectedParties st) (weightedAverage st) of
             Inl e \<Rightarrow> Inl e
           | Inr None \<Rightarrow> Inr (st\<lparr>svgDisplay := Some d'\<rparr>)
           | Inr (Some average) \<Rightarrow>
               if \<not> compass d' then Inr (st\<lparr>svgDisplay := Some d'\<rparr>)
               else
                 let iconOffset = 5;
                     markerX = js_plus (fst average) iconOffset;
                     markerY = js_plus (snd average) iconOffset
                 in Inr (st\<lparr>svgDisplay := Some (d'\<lparr>averageMarker := Some (markerX, markerY)\<rparr>)\<rparr>)))"

text \<open>\<^verbatim>\<open>Array.from(this.selectedParties).map(f)\<close> with an \<open>f\<close> that may throw.\<close>

primrec mapE :: "('a \<Rightarrow> error + 'b) \<Rightarrow> 'a list \<Rightarrow> error + 'b list" where
  "mapE f [] = Inr []"
| "mapE f (i # is) =
     (case f i of
        Inl e \<Rightarrow> Inl e
      | Inr v \<Rightarrow> (case mapE f is of Inl e \<Rightarrow> Inl e | Inr vs \<Rightarrow> Inr (v # vs)))"

text \<open>The loop over the checkboxes: the indices of the checked ones, in document order,
  which is the order of insertion into the \<^verbatim>\<open>Set\<close>.\<close>

definition checkedIndices :: "bool list \<Rightarrow> nat list" where
  "checkedIndices boxes = filter (\<lambda>index. boxes ! index) [0 ..< length boxes]"

text \<open>\<^verbatim>\<open>handlePartySelection()\<close>: the selection is rebuilt from the checkboxes, then the
  count text, the statistics, the URL and the marker follow.\<close>

definition handlePartySelection :: "ui \<Rightarrow> error + ui" where
  "handlePartySelection st =
     (let sel = checkedIndices (checkboxes st);
          st1 = st\<lparr>selectedParties := sel\<rparr>
      in
        (case
           (if length sel = 0 then
              Inr ([], st1\<lparr>selectedCount := ''Geselecteerd: geen'', coalitionStatsDisplay := False\<rparr>)
            else
              (case mapE (\<lambda>index. map_sum id shortName (getParty (parties st) index)) sel of
                 Inl e \<Rightarrow> Inl e
               | Inr selectedShortNamesArray \<Rightarrow>
                   (case computeSeatTotal (parties st) sel of
                      Inl e \<Rightarrow> Inl e
                    | Inr totalSeats \<Rightarrow>
                        let st2 = st1\<lparr>selectedCount :=
                              ''Geselecteerd: '' @ js_join '', '' selectedShortNamesArray\<rparr>
                        in
                          (case updateCoalitionStats (parties st) sel (weightedAverage st) totalSeats of
                             Inl e \<Rightarrow> Inl e
                           | Inr None \<Rightarrow>
                               Inr (selectedShortNamesArray, st2\<lparr>coalitionStatsDisplay := False\<rparr>)
                           | Inr (Some s) \<Rightarrow>
                               Inr (selectedShortNamesArray,
                                    st2\<lparr>coalitionStatsContent := Some s,
                                        coalitionStatsDisplay := True\<rparr>)))))
         of
           Inl e \<Rightarrow> Inl e
         | Inr (selectedShortNamesArray, st3) \<Rightarrow>
             updateCompassMarker
               (st3\<lparr>search := updateQueryParams selectedShortNamesArray (search st3)\<rparr>)))"

text \<open>The body of the loop of \<^verbatim>\<open>preSelectFromQuery\<close> over the parties and their
  indices, on the checkboxes: the checkbox of a party whose upper-cased short name is among
  the query's names is checked, if that checkbox exists.\<close>

definition preSelectStep :: "string list \<Rightarrow> nat \<times> party \<Rightarrow> bool list \<Rightarrow> bool list" where
  "preSelectStep queryParties ip boxes =
     (case ip of (index, party) \<Rightarrow>
        let shortNameUpper = toUpperCase (shortName party)
        in if shortNameUpper \<in> set queryParties
           then (if index < length boxes then boxes[index := True] else boxes)
           else boxes)"

text \<open>\<^verbatim>\<open>preSelectFromQuery()\<close>; the callback given to \<^verbatim>\<open>requestAnimationFrame\<close> runs
  \<^verbatim>\<open>handlePartySelection\<close>.\<close>

definition preSelectFromQuery :: "ui \<Rightarrow> error + ui" where
  "preSelectFromQuery st =
     (let queryParties = getQueryParties (search st) in
      if length queryParties = 0 then Inr st
      else
        handlePartySelection
          (st\<lparr>checkboxes :=
               fold (preSelectStep queryParties) (enumerate 0 (parties st)) (checkboxes st)\<rparr>))"

text \<open>The short names of the extractor's table (\<^verbatim>\<open>getShortName\<close>).\<close>

definition knownShortNames :: "string list" where
  "knownShortNames =
     [''VVD'', ''PVV'', ''DENK'', ''PvdA-GL'', ''SP'', ''BBB'', ''D66'', ''CDA'', ''PvdD'',
      ''FvD'', ''SGP'', ''JA21'', ''50PLUS'', ''NSC'', ''CU'', ''Volt'']"

subsection \<open>Notions of the specification\<close>

text \<open>The seat count of a party, with missing seat data treated as \<open>0\<close>.\<close>

definition seatsOrZero :: "party \<Rightarrow> nat" where
  "seatsOrZero p = (case electionResults2025 p of Some r \<Rightarrow> seats r | None \<Rightarrow> 0)"

text \<open>Party \<open>p'\<close> is party \<open>p\<close> with its seat count multiplied by \<open>c\<close>: the same position,
  and either both without election results or both with, the seats in the ratio \<open>c\<close>.\<close>

definition seatsScaledBy :: "real \<Rightarrow> party \<Rightarrow> party \<Rightarrow> bool" where
  "seatsScaledBy c p p' \<longleftrightarrow>
     position p' = position p \<and>
     rel_option (\<lambda>r r'. real (seats r') = c * real (seats r))
       (electionResults2025 p) (electionResults2025 p')"

text \<open>The marker on the page, if there is one.\<close>

definition markerOf :: "ui \<Rightarrow> (jsnum \<times> jsnum) option" where
  "markerOf st = (case svgDisplay st of None \<Rightarrow> None | Some d \<Rightarrow> averageMarker d)"

text \<open>Short names that survive the URL: no two of them equal when upper-cased, none empty,
  none with a comma, none with white space at either end.\<close>

definition urlSafeNames :: "string list \<Rightarrow> bool" where
  "urlSafeNames ns \<longleftrightarrow>
     distinct (map toUpperCase ns) \<and>
     (\<forall>n\<in>set ns. n \<noteq> [] \<and> CHR '','' \<notin> set n \<and> js_trim n = n)"

subsection \<open>Example data\<close>

text \<open>A small party table in the shape the extractor writes: two parties with seats, one
  with zero seats (as \<^verbatim>\<open>NSC\<close> in \<^verbatim>\<open>getElectionResults2025\<close>), and one that the
  extractor's tables do not know, so that it has its full name as short name and neither
  election results nor a parsed political position.\<close>

definition exampleTable :: "party list" where
  "exampleTable =
     [\<lparr>name = ''Democraten 66'', shortName = ''D66'',
       position = \<lparr>x = 40, y = 20\<rparr>,
       politicalPosition = \<lparr>horizontal = Some \<lparr>value = 10, direction = ''links''\<rparr>,
                            vertical = Some \<lparr>value = 60, direction = ''progressief''\<rparr>\<rparr>,
       electionResults2025 = Some \<lparr>seats = 26\<rparr>\<rparr>,
      \<lparr>name = ''Volkspartij voor Vrijheid en Democratie'', shortName = ''VVD'',
       position = \<lparr>x = 70, y = 50\<rparr>,
       politicalPosition = \<lparr>horizontal = Some \<lparr>value = 40, direction = ''rechts''\<rparr>,
                            vertical = Some \<lparr>value = 0, direction = ''conservatief''\<rparr>\<rparr>,
       electionResults2025 = Some \<lparr>seats = 22\<rparr>\<rparr>,
      \<lparr>name = ''Nieuw Sociaal Contract'', shortName = ''NSC'',
       position = \<lparr>x = 30, y = 40\<rparr>,
       politicalPosition = \<lparr>horizontal = Some \<lparr>value = 20, direction = ''rechts''\<rparr>,
                            vertical = Some \<lparr>value = 10, direction = ''conservatief''\<rparr>\<rparr>,
       electionResults2025 = Some \<lparr>seats = 0\<rparr>\<rparr>,
      \<lparr>name = ''Piratenpartij'', shortName = ''Piratenpartij'',
       position = \<lparr>x = 11, y = 22\<rparr>,
       politicalPosition = \<lparr>horizontal = None, vertical = None\<rparr>,
       electionResults2025 = None\<rparr>]"

text \<open>The table with the seat counts of its first two parties multiplied by three.\<close>

definition exampleTableTripled :: "party list" where
  "exampleTableTripled =
     [(exampleTable ! 0)\<lparr>electionResults2025 := Some \<lparr>seats = 78\<rparr>\<rparr>,
      (exampleTable ! 1)\<lparr>electionResults2025 := Some \<lparr>seats = 66\<rparr>\<rparr>,
      exampleTable ! 2,
      exampleTable ! 3]"

text \<open>A party with seats next to a party without election results, and the same pair with
  the seat count doubled.\<close>

definition mixedTable :: "party list" where
  "mixedTable = [exampleTable ! 1, exampleTable ! 3]"

definition mixedTableDoubled :: "party list" where
  "mixedTableDoubled =
     [(exampleTable ! 1)\<lparr>electionResults2025 := Some \<lparr>seats = 44\<rparr>\<rparr>, exampleTable ! 3]"

text \<open>A loaded page with nothing selected and a marker left on the diagram.\<close>

definition examplePage :: ui where
  "examplePage =
     \<lparr>parties = exampleTable,
      checkboxes = [False, False, False, False],
      weightedAverage = True,
      selectedParties = [],
      selectedCount = ''Geselecteerd: geen'',
      coalitionStatsDisplay = False,
      coalitionStatsContent = None,
      search = [],
      svgDisplay = Some \<lparr>compass = True, averageMarker = Some (Fin 45, Fin 25)\<rparr>\<rparr>"

text \<open>The two parties of the specification's signed-average example, with ten seats each;
  \<open>A\<close> also has a vertical position, \<open>B\<close> has none.\<close>

definition signedExample :: "party list" where
  "signedExample =
     [\<lparr>name = ''A'', shortName = ''A'',
       position = \<lparr>x = 70, y = 50\<rparr>,
       politicalPosition = \<lparr>horizontal = Some \<lparr>value = 40, direction = ''rechts''\<rparr>,
                            vertical = Some \<lparr>value = 30, direction = ''conservatief''\<rparr>\<rparr>,
       electionResults2025 = Some \<lparr>seats = 10\<rparr>\<rparr>,
      \<lparr>name = ''B'', shortName = ''B'',
       position = \<lparr>x = 30, y = 40\<rparr>,
       politicalPosition = \<lparr>horizontal = Some \<lparr>value = 20, direction = ''links''\<rparr>,
                            vertical = None\<rparr>,
       electionResults2025 = Some \<lparr>seats = 10\<rparr>\<rparr>]"

text \<open>A page on the example table with three checkboxes checked, one of them of the party
  that the extractor's tables do not know, and the same page loaded afresh from a URL that
  names the three in another letter case.\<close>

definition selectedPage :: ui where
  "selectedPage =
     \<lparr>parties = exampleTable,
      checkboxes = [True, False, True, True],
      weightedAverage = False,
      selectedParties = [],
      selectedCount = ''Geselecteerd: geen'',
      coalitionStatsDisplay = False,
      coalitionStatsContent = None,
      search = [(''lang'', ''nl'')],
      svgDisplay = None\<rparr>"

definition reloadedPage :: ui where
  "reloadedPage =
     selectedPage\<lparr>checkboxes := [False, False, False, False],
       search := [(''lang'', ''nl''), (''parties'', ''d66,Nsc,PIRATENPARTIJ'')]\<rparr>"

text \<open>A party as the extractor writes one that its tables do not know: the short name is
  the full name, there are no election results and no parsed political position.\<close>

definition plainParty :: "string \<Rightarrow> party" where
  "plainParty n =
     \<lparr>name = n, shortName = n,
      position = \<lparr>x = 50, y = 50\<rparr>,
      politicalPosition = \<lparr>horizontal = None, vertical = None\<rparr>,
      electionResults2025 = None\<rparr>"

text \<open>A page on a table of such parties with the given checkboxes and \<^verbatim>\<open>parties\<close>
  parameter (none for \<open>None\<close>), and no diagram.\<close>

definition plainPage :: "string list \<Rightarrow> bool list \<Rightarrow> string option \<Rightarrow> ui" where
  "plainPage ns boxes param =
     \<lparr>parties = map plainParty ns,
      checkboxes = boxes,
      weightedAverage = False,
      selectedParties = [],
      selectedCount = ''Geselecteerd: geen'',
      coalitionStatsDisplay = False,
      coalitionStatsContent = None,
      search = (case param of None \<Rightarrow> [] | Some v \<Rightarrow> [(''parties'', v)]),
      svgDisplay = None\<rparr>"

section \<open>The loops as sums\<close>

lemma weightedStep_in_range:
  "i < length ps \<Longrightarrow>
   weightedStep ps i (a, b, c) =
     Inr (a + x (position (ps ! i)) * weight True (ps ! i),
          b + y (position (ps ! i)) * weight True (ps ! i),
          c + weight True (ps ! i))"
  by (simp add: weightedStep_def getParty_def weight_def Let_def split: option.splits)

lemma forEach_weightedStep:
  "\<forall>i\<in>set sel. i < length ps \<Longrightarrow>
   forEach (weightedStep ps) sel (a, b, c) =
     Inr (a + (\<Sum>i\<leftarrow>sel. x (position (ps ! i)) * weight True (ps ! i)),
          b + (\<Sum>i\<leftarrow>sel. y (position (ps ! i)) * weight True (ps ! i)),
          c + (\<Sum>i\<leftarrow>sel. weight True (ps ! i)))"
  by (induction sel arbitrary: a b c) (simp_all add: weightedStep_in_range add.assoc)

lemma simpleStep_in_range:
  "i < length ps \<Longrightarrow>
   simpleStep ps i (a, b) = Inr (a + x (position (ps ! i)), b + y (position (ps ! i)))"
  by (simp add: simpleStep_def getParty_def)

lemma forEach_simpleStep:
  "\<forall>i\<in>set sel. i < length ps \<Longrightarrow>
   forEach (simpleStep ps) sel (a, b) =
     Inr (a + (\<Sum>i\<leftarrow>sel. x (position (ps ! i))),
          b + (\<Sum>i\<leftarrow>sel. y (position (ps ! i))))"
  by (induction sel arbitrary: a b) (simp_all add: simpleStep_in_range add.assoc)

lemma statsStep_in_range:
  "i < length ps \<Longrightarrow>
   statsStep ps w i (a, b, c) =
     Inr (a + horizontalSigned (ps ! i) * weight w (ps ! i),
          b + verticalSigned (ps ! i) * weight w (ps ! i),
          c + weight w (ps ! i))"
  by (simp add: statsStep_def getParty_def)

lemma forEach_statsStep:
  "\<forall>i\<in>set sel. i < length ps \<Longrightarrow>
   forEach (statsStep ps w) sel (a, b, c) =
     Inr (a + (\<Sum>i\<leftarrow>sel. horizontalSigned (ps ! i) * weight w (ps ! i)),
          b + (\<Sum>i\<leftarrow>sel. verticalSigned (ps ! i) * weight w (ps ! i)),
          c + (\<Sum>i\<leftarrow>sel. weight w (ps ! i)))"
  by (induction sel arbitrary: a b c) (simp_all add: statsStep_in_range add.assoc)

lemma seatStep_in_range:
  "i < length ps \<Longrightarrow> seatStep ps i a = Inr (a + seatsOrZero (ps ! i))"
  by (simp add: seatStep_def getParty_def seatsOrZero_def)

lemma forEach_seatStep:
  "\<forall>i\<in>set sel. i < length ps \<Longrightarrow>
   forEach (seatStep ps) sel a = Inr (a + (\<Sum>i\<leftarrow>sel. seatsOrZero (ps ! i)))"
  by (induction sel arbitrary: a) (simp_all add: seatStep_in_range add.assoc)

lemma weight_nonneg: "0 \<le> weight w p"
  by (simp add: weight_def split: option.splits)

lemma sum_weight_nonneg: "0 \<le> (\<Sum>i\<leftarrow>sel. weight w (ps ! i))"
  by (induction sel) (simp_all add: weight_nonneg)

lemma sum_weight_zero:
  "(\<Sum>i\<leftarrow>sel. weight w (ps ! i)) = 0 \<longleftrightarrow> (\<forall>i\<in>set sel. weight w (ps ! i) = 0)"
proof (induction sel)
  case Nil
  show ?case by simp
next
  case (Cons j sel)
  have "0 \<le> weight w (ps ! j)" "0 \<le> (\<Sum>i\<leftarrow>sel. weight w (ps ! i))"
    by (rule weight_nonneg, rule sum_weight_nonneg)
  then have "weight w (ps ! j) + (\<Sum>i\<leftarrow>sel. weight w (ps ! i)) = 0 \<longleftrightarrow>
    weight w (ps ! j) = 0 \<and> (\<Sum>i\<leftarrow>sel. weight w (ps ! i)) = 0"
    by (rule add_nonneg_eq_0_iff)
  with Cons show ?case by simp
qed

lemma sum_weighted_zero:
  "\<forall>i\<in>set sel. weight w (ps ! i) = 0 \<Longrightarrow> (\<Sum>i\<leftarrow>sel. f i * weight w (ps ! i)) = (0::real)"
  by (induction sel) simp_all

section \<open>The position average\<close>

text \<open>
  Claim C4. For every non-empty selection (of indices into the party table), the average
  position computed with the weighted-average checkbox unchecked is the unweighted
  centroid of the selected parties' positions: on each coordinate, the sum over the
  selection divided by the number of selected parties.
\<close>

theorem unweighted_centroid:
  assumes "sel \<noteq> []" and "\<forall>i\<in>set sel. i < length ps"
  shows "calculateAverage ps sel False =
     Inr (Some (Fin ((\<Sum>i\<leftarrow>sel. x (position (ps ! i))) / real (length sel)),
                Fin ((\<Sum>i\<leftarrow>sel. y (position (ps ! i))) / real (length sel))))"
  using assms by (simp add: calculateAverage_def forEach_simpleStep js_div_def)

theorem unweighted_centroid_witness:
  "calculateAverage exampleTable [0, 1, 3] False = Inr (Some (Fin (121 / 3), Fin (92 / 3)))"
  using unweighted_centroid [of "[0, 1, 3]" exampleTable]
  by (simp add: exampleTable_def)

lemma calculateAverage_weighted:
  assumes "sel \<noteq> []" and "\<forall>i\<in>set sel. i < length ps"
  shows "calculateAverage ps sel True =
     Inr (Some
       (if 0 < (\<Sum>i\<leftarrow>sel. weight True (ps ! i))
        then js_div (\<Sum>i\<leftarrow>sel. x (position (ps ! i)) * weight True (ps ! i))
               (\<Sum>i\<leftarrow>sel. weight True (ps ! i))
        else js_div (\<Sum>i\<leftarrow>sel. x (position (ps ! i)) * weight True (ps ! i))
               (real (length sel)),
        if 0 < (\<Sum>i\<leftarrow>sel. weight True (ps ! i))
        then js_div (\<Sum>i\<leftarrow>sel. y (position (ps ! i)) * weight True (ps ! i))
               (\<Sum>i\<leftarrow>sel. weight True (ps ! i))
        else js_div (\<Sum>i\<leftarrow>sel. y (position (ps ! i)) * weight True (ps ! i))
               (real (length sel))))"
  using assms by (simp add: calculateAverage_def forEach_weightedStep)

lemma scaled_weight:
  assumes "seatsScaledBy c p p'" and "electionResults2025 p \<noteq> None"
  shows "weight True p' = c * weight True p"
  using assms
  by (auto simp: seatsScaledBy_def weight_def option.rel_sel split: option.splits)

lemma scaled_sums:
  assumes "\<forall>i\<in>set sel. electionResults2025 (ps ! i) \<noteq> None \<and> seatsScaledBy c (ps ! i) (ps' ! i)"
  shows "(\<Sum>i\<leftarrow>sel. weight True (ps' ! i)) = c * (\<Sum>i\<leftarrow>sel. weight True (ps ! i))"
    and "(\<Sum>i\<leftarrow>sel. x (position (ps' ! i)) * weight True (ps' ! i)) =
         c * (\<Sum>i\<leftarrow>sel. x (position (ps ! i)) * weight True (ps ! i))"
    and "(\<Sum>i\<leftarrow>sel. y (position (ps' ! i)) * weight True (ps' ! i)) =
         c * (\<Sum>i\<leftarrow>sel. y (position (ps ! i)) * weight True (ps ! i))"
  using assms
  by (induction sel) (auto simp: scaled_weight seatsScaledBy_def algebra_simps)

lemma weight_True_seatsOrZero:
  "electionResults2025 p \<noteq> None \<Longrightarrow> weight True p = real (seatsOrZero p)"
  by (auto simp: weight_def seatsOrZero_def)

lemma sum_weight_seats:
  "\<forall>i\<in>set sel. electionResults2025 (ps ! i) \<noteq> None \<Longrightarrow>
   (\<Sum>i\<leftarrow>sel. weight True (ps ! i)) = real (\<Sum>i\<leftarrow>sel. seatsOrZero (ps ! i))"
  by (induction sel) (simp_all add: weight_True_seatsOrZero)

text \<open>
  Claim C2, as amended. The weight of a party is its seat count, or \<open>1\<close> when it has no
  election results. For every non-empty selection whose total weight is positive, the
  average position computed with the weighted-average checkbox checked is the weighted
  centroid of the selected parties' positions. For every non-empty selection in which every
  party has election results, the result does not change when all seat counts of the
  selection are multiplied by the same positive constant. (As stated, the claim promises
  the invariance for every selection; it fails as soon as a selected party without election
  results, whose weight stays \<open>1\<close>, stands next to one with seats.)
\<close>

theorem weighted_centroid:
  assumes ne: "sel \<noteq> []" and inr: "\<forall>i\<in>set sel. i < length ps"
  shows "(0 < (\<Sum>i\<leftarrow>sel. weight True (ps ! i)) \<longrightarrow>
          calculateAverage ps sel True =
            Inr (Some
              (Fin ((\<Sum>i\<leftarrow>sel. x (position (ps ! i)) * weight True (ps ! i)) /
                    (\<Sum>i\<leftarrow>sel. weight True (ps ! i))),
               Fin ((\<Sum>i\<leftarrow>sel. y (position (ps ! i)) * weight True (ps ! i)) /
                    (\<Sum>i\<leftarrow>sel. weight True (ps ! i)))))) \<and>
         (\<forall>c ps'. 0 < c \<and> length ps' = length ps \<and>
            (\<forall>i\<in>set sel. electionResults2025 (ps ! i) \<noteq> None \<and>
                           seatsScaledBy c (ps ! i) (ps' ! i)) \<longrightarrow>
            calculateAverage ps' sel True = calculateAverage ps sel True)"
proof (intro conjI allI impI)
  assume "0 < (\<Sum>i\<leftarrow>sel. weight True (ps ! i))"
  then show "calculateAverage ps sel True =
            Inr (Some
              (Fin ((\<Sum>i\<leftarrow>sel. x (position (ps ! i)) * weight True (ps ! i)) /
                    (\<Sum>i\<leftarrow>sel. weight True (ps ! i))),
               Fin ((\<Sum>i\<leftarrow>sel. y (position (ps ! i)) * weight True (ps ! i)) /
                    (\<Sum>i\<leftarrow>sel. weight True (ps ! i)))))"
    by (simp add: calculateAverage_weighted [OF ne inr] js_div_def)
next
  fix c ps'
  assume h: "0 < c \<and> length ps' = length ps \<and>
            (\<forall>i\<in>set sel. electionResults2025 (ps ! i) \<noteq> None \<and>
                           seatsScaledBy c (ps ! i) (ps' ! i))"
  then have c: "0 < c" and inr': "\<forall>i\<in>set sel. i < length ps'"
    and sc: "\<forall>i\<in>set sel. electionResults2025 (ps ! i) \<noteq> None \<and>
                           seatsScaledBy c (ps ! i) (ps' ! i)"
    using inr by auto
  have len: "real (length sel) \<noteq> 0" using ne by simp
  show "calculateAverage ps' sel True = calculateAverage ps sel True"
  proof (cases "0 < (\<Sum>i\<leftarrow>sel. weight True (ps ! i))")
    case True
    then show ?thesis
      using c
      by (simp add: calculateAverage_weighted [OF ne inr] calculateAverage_weighted [OF ne inr']
          scaled_sums [OF sc] js_div_def zero_less_mult_iff)
  next
    case False
    then have z: "(\<Sum>i\<leftarrow>sel. weight True (ps ! i)) = 0"
      using sum_weight_nonneg [of True ps sel] by simp
    then have "\<forall>i\<in>set sel. weight True (ps ! i) = 0"
      by (simp add: sum_weight_zero)
    then have "(\<Sum>i\<leftarrow>sel. x (position (ps ! i)) * weight True (ps ! i)) = 0"
      and "(\<Sum>i\<leftarrow>sel. y (position (ps ! i)) * weight True (ps ! i)) = 0"
      by (simp_all add: sum_weighted_zero)
    then show ?thesis
      using z len
      by (simp add: calculateAverage_weighted [OF ne inr] calculateAverage_weighted [OF ne inr']
          scaled_sums [OF sc] js_div_def)
  qed
qed

theorem weighted_centroid_witness:
  "calculateAverage exampleTable [0, 1, 3] True = Inr (Some (Fin (2591 / 49), Fin (1642 / 49))) \<and>
   calculateAverage exampleTableTripled [0, 1, 2] True = calculateAverage exampleTable [0, 1, 2] True"
proof -
  have ne: "[0, 1, 3] \<noteq> ([]::nat list)" "[0, 1, 2] \<noteq> ([]::nat list)"
    by simp_all
  have inr: "\<forall>i\<in>set [0, 1, 3]. i < length exampleTable"
    "\<forall>i\<in>set [0, 1, 2]. i < length exampleTable"
    by (simp_all add: exampleTable_def)
  have pos: "0 < (\<Sum>i\<leftarrow>[0, 1, 3]. weight True (exampleTable ! i))"
    by (simp add: exampleTable_def weight_def)
  have sc: "0 < (3::real) \<and> length exampleTableTripled = length exampleTable \<and>
    (\<forall>i\<in>set [0, 1, 2]. electionResults2025 (exampleTable ! i) \<noteq> None \<and>
       seatsScaledBy 3 (exampleTable ! i) (exampleTableTripled ! i))"
    by (simp add: exampleTable_def exampleTableTripled_def seatsScaledBy_def)
  have "calculateAverage exampleTable [0, 1, 3] True =
      Inr (Some (Fin (2591 / 49), Fin (1642 / 49)))"
    using weighted_centroid [OF ne(1) inr(1), THEN conjunct1, rule_format, OF pos]
    by (simp add: exampleTable_def weight_def)
  moreover have "calculateAverage exampleTableTripled [0, 1, 2] True =
      calculateAverage exampleTable [0, 1, 2] True"
    using weighted_centroid [OF ne(2) inr(2), THEN conjunct2, rule_format, OF sc] .
  ultimately show ?thesis by simp
qed

text \<open>
  The claim as stated fails: doubling the one seat count of the selection
  \<open>{VVD, Piratenpartij}\<close> (the second party has no election results, hence no seat count
  to scale and the weight \<open>1\<close> before and after) moves the weighted average.
\<close>

theorem scaling_counterexample:
  "seatsScaledBy 2 (mixedTable ! 0) (mixedTableDoubled ! 0) \<and>
   seatsScaledBy 2 (mixedTable ! 1) (mixedTableDoubled ! 1) \<and>
   calculateAverage mixedTable [0, 1] True = Inr (Some (Fin (1551 / 23), Fin (1122 / 23))) \<and>
   calculateAverage mixedTableDoubled [0, 1] True = Inr (Some (Fin (3091 / 45), Fin (2222 / 45))) \<and>
   calculateAverage mixedTableDoubled [0, 1] True \<noteq> calculateAverage mixedTable [0, 1] True"
  by (simp add: mixedTable_def mixedTableDoubled_def exampleTable_def seatsScaledBy_def
      calculateAverage_def weightedStep_def getParty_def js_div_def)

text \<open>
  Claim C5. In the weighted average over a non-empty selection whose total weight is \<open>0\<close>,
  the accumulated weighted sums are divided by the number of selected parties, and the
  result is a pair of finite numbers: no division by zero takes place.
\<close>

theorem zero_weight_fallback:
  assumes "sel \<noteq> []" and "\<forall>i\<in>set sel. i < length ps"
    and "(\<Sum>i\<leftarrow>sel. weight True (ps ! i)) = 0"
  shows "calculateAverage ps sel True =
     Inr (Some
       (Fin ((\<Sum>i\<leftarrow>sel. x (position (ps ! i)) * weight True (ps ! i)) / real (length sel)),
        Fin ((\<Sum>i\<leftarrow>sel. y (position (ps ! i)) * weight True (ps ! i)) / real (length sel))))"
  using assms by (simp add: calculateAverage_weighted js_div_def)

theorem zero_weight_fallback_witness:
  "calculateAverage exampleTable [2] True = Inr (Some (Fin 0, Fin 0))"
proof -
  have "[2] \<noteq> ([]::nat list)" and "\<forall>i\<in>set [2]. i < length exampleTable"
    and "(\<Sum>i\<leftarrow>[2]. weight True (exampleTable ! i)) = 0"
    by (simp_all add: exampleTable_def weight_def)
  from zero_weight_fallback [OF this] show ?thesis
    by (simp add: exampleTable_def weight_def)
qed

text \<open>
  Claim C10. For every non-empty selection in which every party has election results and
  the seat counts sum to \<open>0\<close>, the weighted average position is the point \<open>(0, 0)\<close>. The
  instance after it sets this against the unweighted centroid of the same selection,
  \<open>(30, 40)\<close>.
\<close>

theorem zero_seats_origin:
  assumes ne: "sel \<noteq> []" and inr: "\<forall>i\<in>set sel. i < length ps"
    and data: "\<forall>i\<in>set sel. electionResults2025 (ps ! i) \<noteq> None"
    and zero: "computeSeatTotal ps sel = Inr 0"
  shows "calculateAverage ps sel True = Inr (Some (Fin 0, Fin 0))"
proof -
  have "(\<Sum>i\<leftarrow>sel. seatsOrZero (ps ! i)) = 0"
    using zero inr by (simp add: computeSeatTotal_def forEach_seatStep)
  then have z: "(\<Sum>i\<leftarrow>sel. weight True (ps ! i)) = 0"
    using data by (simp add: sum_weight_seats)
  then have "\<forall>i\<in>set sel. weight True (ps ! i) = 0"
    by (simp add: sum_weight_zero)
  then have "(\<Sum>i\<leftarrow>sel. x (position (ps ! i)) * weight True (ps ! i)) = 0"
    and "(\<Sum>i\<leftarrow>sel. y (position (ps ! i)) * weight True (ps ! i)) = 0"
    by (simp_all add: sum_weighted_zero)
  then show ?thesis
    using z ne by (simp add: calculateAverage_weighted [OF ne inr] js_div_def)
qed

theorem zero_seats_origin_witness:
  "calculateAverage exampleTable [2] True = Inr (Some (Fin 0, Fin 0)) \<and>
   calculateAverage exampleTable [2] False = Inr (Some (Fin 30, Fin 40))"
proof -
  have "[2] \<noteq> ([]::nat list)" and "\<forall>i\<in>set [2]. i < length exampleTable"
    and "\<forall>i\<in>set [2]. electionResults2025 (exampleTable ! i) \<noteq> None"
    and "computeSeatTotal exampleTable [2] = Inr 0"
    by (simp_all add: exampleTable_def computeSeatTotal_def seatStep_def getParty_def)
  from zero_seats_origin [OF this]
  have "calculateAverage exampleTable [2] True = Inr (Some (Fin 0, Fin 0))" .
  moreover have "calculateAverage exampleTable [2] False = Inr (Some (Fin 30, Fin 40))"
    by (simp add: exampleTable_def calculateAverage_def simpleStep_def getParty_def js_div_def)
  ultimately show ?thesis by simp
qed

text \<open>
  Claim C7. \<^verbatim>\<open>calculateAverage\<close> returns \<^verbatim>\<open>null\<close> exactly when the selection is empty,
  with the weighted-average checkbox checked or not; and \<^verbatim>\<open>updateCompassMarker\<close>, run
  on an empty selection, returns normally and leaves no marker on the page.
\<close>

theorem null_iff_empty:
  "(calculateAverage ps sel w = Inr None \<longleftrightarrow> sel = []) \<and>
   (selectedParties st = [] \<longrightarrow>
      (\<exists>st'. updateCompassMarker st = Inr st' \<and> markerOf st' = None))"
proof
  show "calculateAverage ps sel w = Inr None \<longleftrightarrow> sel = []"
    by (auto simp: calculateAverage_def split: sum.splits prod.splits)
  show "selectedParties st = [] \<longrightarrow>
      (\<exists>st'. updateCompassMarker st = Inr st' \<and> markerOf st' = None)"
    by (auto simp: updateCompassMarker_def calculateAverage_def markerOf_def Let_def
        split: option.splits)
qed

theorem null_iff_empty_witness:
  "calculateAverage exampleTable [] True = Inr None \<and>
   calculateAverage exampleTable [] False = Inr None \<and>
   calculateAverage exampleTable [0] True \<noteq> Inr None \<and>
   markerOf examplePage = Some (Fin 45, Fin 25) \<and>
   (\<exists>st'. updateCompassMarker examplePage = Inr st' \<and> markerOf st' = None)"
proof -
  have e: "selectedParties examplePage = []"
    by (simp add: examplePage_def)
  have "calculateAverage exampleTable [] True = Inr None"
    "calculateAverage exampleTable [] False = Inr None"
    "calculateAverage exampleTable [0] True \<noteq> Inr None"
    using null_iff_empty [of exampleTable "[]" True examplePage, THEN conjunct1]
      null_iff_empty [of exampleTable "[]" False examplePage, THEN conjunct1]
      null_iff_empty [of exampleTable "[0]" True examplePage, THEN conjunct1]
    by simp_all
  moreover have "markerOf examplePage = Some (Fin 45, Fin 25)"
    by (simp add: markerOf_def examplePage_def)
  moreover have "\<exists>st'. updateCompassMarker examplePage = Inr st' \<and> markerOf st' = None"
    using null_iff_empty [of exampleTable "[]" True examplePage, THEN conjunct2] e by simp
  ultimately show ?thesis by simp
qed

section \<open>The seat total\<close>

text \<open>
  Claim C8. For every selection (of indices into the party table), the seat total is the
  sum over the selection of the parties' seat counts, a party without election results
  counting \<open>0\<close>; the seat total of the empty selection is \<open>0\<close>.
\<close>

theorem seat_total:
  "((\<forall>i\<in>set sel. i < length ps) \<longrightarrow>
      computeSeatTotal ps sel = Inr (\<Sum>i\<leftarrow>sel. seatsOrZero (ps ! i))) \<and>
   computeSeatTotal ps [] = Inr 0"
  by (simp add: computeSeatTotal_def forEach_seatStep)

theorem seat_total_witness:
  "computeSeatTotal exampleTable [0, 1, 2, 3] = Inr 48 \<and> computeSeatTotal exampleTable [] = Inr 0"
proof -
  have "\<forall>i\<in>set [0, 1, 2, 3]. i < length exampleTable"
    by (simp add: exampleTable_def)
  with seat_total [of "[0, 1, 2, 3]" exampleTable] show ?thesis
    by (simp add: exampleTable_def seatsOrZero_def)
qed

section \<open>The signed averages\<close>

lemma signedAverages_in_range:
  assumes "\<forall>i\<in>set sel. i < length ps"
  shows "signedAverages ps sel w =
     Inr (js_div (\<Sum>i\<leftarrow>sel. horizontalSigned (ps ! i) * weight w (ps ! i))
            (\<Sum>i\<leftarrow>sel. weight w (ps ! i)),
          js_div (\<Sum>i\<leftarrow>sel. verticalSigned (ps ! i) * weight w (ps ! i))
            (\<Sum>i\<leftarrow>sel. weight w (ps ! i)))"
  using assms by (simp add: signedAverages_def forEach_statsStep)

lemma sum_weight_pos:
  assumes "sel \<noteq> []" and "\<not> w \<or> (\<exists>i\<in>set sel. 0 < weight w (ps ! i))"
  shows "0 < (\<Sum>i\<leftarrow>sel. weight w (ps ! i))"
proof -
  have "\<exists>i\<in>set sel. weight w (ps ! i) \<noteq> 0"
  proof (cases w)
    case True
    with assms(2) obtain i where "i \<in> set sel" and "0 < weight w (ps ! i)" by blast
    then have "i \<in> set sel" and "weight w (ps ! i) \<noteq> 0" by simp_all
    then show ?thesis ..
  next
    case False
    moreover obtain i where "i \<in> set sel" using assms(1) by (cases sel) auto
    ultimately show ?thesis by (auto simp: weight_def split: option.splits)
  qed
  then have "(\<Sum>i\<leftarrow>sel. weight w (ps ! i)) \<noteq> 0"
    by (simp add: sum_weight_zero)
  with sum_weight_nonneg [of w ps sel] show ?thesis by simp
qed

text \<open>The averages are finite when the weighted-average checkbox is unchecked, and when it
  is checked and some selected party has a positive weight.\<close>

lemma signedAverages_finite:
  assumes "sel \<noteq> []" and "\<forall>i\<in>set sel. i < length ps"
    and "\<not> w \<or> (\<exists>i\<in>set sel. 0 < weight w (ps ! i))"
  shows "\<exists>a b. signedAverages ps sel w = Inr (Fin a, Fin b)"
  using sum_weight_pos [OF assms(1,3)]
  by (simp add: signedAverages_in_range [OF assms(2)] js_div_def)

text \<open>
  Claim C3. Each party's horizontal value becomes a signed scalar, positive for
  \<^verbatim>\<open>rechts\<close> and negative for \<^verbatim>\<open>links\<close>, and its vertical value one that is positive for
  \<^verbatim>\<open>conservatief\<close> and negative for \<^verbatim>\<open>progressief\<close>; a missing axis gives \<open>0\<close>. The weight
  of a party is \<open>1\<close> with the weighted-average checkbox unchecked, and its seat count (or
  \<open>1\<close> without election results) with it checked. For a non-empty selection of positive
  total weight the statistics show, on each axis, the absolute value of the weighted mean
  of the signed scalars, with the positive label when the mean is at least \<open>0\<close> and the
  negative label otherwise. The instance after it is the specification's example: \<open>A\<close> at
  \<open>40\<close> \<^verbatim>\<open>rechts\<close> and \<open>B\<close> at \<open>20\<close> \<^verbatim>\<open>links\<close>, ten seats each, have the signed values \<open>40\<close>
  and \<open>-20\<close>, the weighted mean \<open>10\<close>, and the text \<^verbatim>\<open>10.0% rechts\<close>.
\<close>

theorem signed_average:
  fixes ps :: "party list" and sel :: "nat list" and w :: bool and n :: nat
  defines "totalW \<equiv> \<Sum>i\<leftarrow>sel. weight w (ps ! i)"
  defines "meanH \<equiv> (\<Sum>i\<leftarrow>sel. horizontalSigned (ps ! i) * weight w (ps ! i)) / totalW"
  defines "meanV \<equiv> (\<Sum>i\<leftarrow>sel. verticalSigned (ps ! i) * weight w (ps ! i)) / totalW"
  assumes ne: "sel \<noteq> []" and inr: "\<forall>i\<in>set sel. i < length ps" and pos: "0 < totalW"
  shows "updateCoalitionStats ps sel w n =
     Inr (Some
       \<lparr>statSeats = n,
        statHorizontalValue = Fin \<bar>meanH\<bar>,
        statHorizontalLabel = (if 0 \<le> meanH then ''rechts'' else ''links''),
        statVerticalValue = Fin \<bar>meanV\<bar>,
        statVerticalLabel = (if 0 \<le> meanV then ''conservatief'' else ''progressief'')\<rparr>) \<and>
     (\<forall>p v. horizontal (politicalPosition p) = Some \<lparr>value = v, direction = ''rechts''\<rparr> \<longrightarrow>
        horizontalSigned p = real v) \<and>
     (\<forall>p v. horizontal (politicalPosition p) = Some \<lparr>value = v, direction = ''links''\<rparr> \<longrightarrow>
        horizontalSigned p = - real v) \<and>
     (\<forall>p. horizontal (politicalPosition p) = None \<longrightarrow> horizontalSigned p = 0) \<and>
     (\<forall>p v. vertical (politicalPosition p) = Some \<lparr>value = v, direction = ''conservatief''\<rparr> \<longrightarrow>
        verticalSigned p = real v) \<and>
     (\<forall>p v. vertical (politicalPosition p) = Some \<lparr>value = v, direction = ''progressief''\<rparr> \<longrightarrow>
        verticalSigned p = - real v) \<and>
     (\<forall>p. vertical (politicalPosition p) = None \<longrightarrow> verticalSigned p = 0) \<and>
     (\<forall>p. weight False p = 1) \<and>
     (\<forall>p. weight True p = (case electionResults2025 p of Some r \<Rightarrow> real (seats r) | None \<Rightarrow> 1))"
proof -
  have "updateCoalitionStats ps sel w n =
     Inr (Some
       \<lparr>statSeats = n,
        statHorizontalValue = Fin \<bar>meanH\<bar>,
        statHorizontalLabel = (if 0 \<le> meanH then ''rechts'' else ''links''),
        statVerticalValue = Fin \<bar>meanV\<bar>,
        statVerticalLabel = (if 0 \<le> meanV then ''conservatief'' else ''progressief'')\<rparr>)"
    using ne pos
    by (simp add: updateCoalitionStats_def signedAverages_in_range [OF inr] js_div_def
        totalW_def meanH_def meanV_def)
  moreover have "\<forall>p v. horizontal (politicalPosition p) = Some \<lparr>value = v, direction = ''rechts''\<rparr> \<longrightarrow>
        horizontalSigned p = real v"
    and "\<forall>p v. horizontal (politicalPosition p) = Some \<lparr>value = v, direction = ''links''\<rparr> \<longrightarrow>
        horizontalSigned p = - real v"
    and "\<forall>p. horizontal (politicalPosition p) = None \<longrightarrow> horizontalSigned p = 0"
    by (simp_all add: horizontalSigned_def)
  moreover have "\<forall>p v. vertical (politicalPosition p) = Some \<lparr>value = v, direction = ''conservatief''\<rparr> \<longrightarrow>
        verticalSigned p = real v"
    and "\<forall>p v. vertical (politicalPosition p) = Some \<lparr>value = v, direction = ''progressief''\<rparr> \<longrightarrow>
        verticalSigned p = - real v"
    and "\<forall>p. vertical (politicalPosition p) = None \<longrightarrow> verticalSigned p = 0"
    by (simp_all add: verticalSigned_def)
  moreover have "\<forall>p. weight False p = 1"
    and "\<forall>p. weight True p = (case electionResults2025 p of Some r \<Rightarrow> real (seats r) | None \<Rightarrow> 1)"
    by (simp_all add: weight_def split: option.splits)
  ultimately show ?thesis by simp
qed

theorem signed_average_witness:
  "map_sum id (map_option statsItems) (updateCoalitionStats signedExample [0, 1] True 20) =
     Inr (Some [Some ''20 zetels'', Some ''10.0% rechts'', Some ''15.0% conservatief'']) \<and>
   map_sum id (map_option statHorizontalValue) (updateCoalitionStats signedExample [0, 1] True 20) =
     Inr (Some (Fin 10)) \<and>
   horizontalSigned (signedExample ! 0) = 40 \<and>
   horizontalSigned (signedExample ! 1) = - 20 \<and>
   verticalSigned (signedExample ! 1) = 0"
proof -
  have ne: "[0, 1] \<noteq> ([]::nat list)" by simp
  have inr: "\<forall>i\<in>set [0, 1]. i < length signedExample"
    by (simp add: signedExample_def)
  have pos: "0 < (\<Sum>i\<leftarrow>[0, 1]. weight True (signedExample ! i))"
    by (simp add: signedExample_def weight_def)
  note th = signed_average [OF ne inr pos, of 20]
  have "updateCoalitionStats signedExample [0, 1] True 20 =
     Inr (Some \<lparr>statSeats = 20, statHorizontalValue = Fin 10, statHorizontalLabel = ''rechts'',
       statVerticalValue = Fin 15, statVerticalLabel = ''conservatief''\<rparr>)"
    using th [THEN conjunct1]
    by (simp add: signedExample_def weight_def horizontalSigned_def verticalSigned_def)
  then show ?thesis
    by (simp add: statsItems_def statsItem_def toFixed1_digits_def show_nat.simps
        signedExample_def horizontalSigned_def verticalSigned_def)
qed

text \<open>
  Claim C6 says that for every non-empty selection the signed averages are finite, the
  divisor never being zero, also when selected parties have zero seats. The code does not
  do this: with the weighted-average checkbox checked and only \<^verbatim>\<open>NSC\<close> (zero seats)
  selected, the total weight is \<open>0\<close>, both averages are \<^verbatim>\<open>NaN\<close>, and the statistics read
  \<^verbatim>\<open>NaN% links\<close> and \<^verbatim>\<open>NaN% progressief\<close>, for a party that is at \<open>20\<close> \<^verbatim>\<open>rechts\<close> and \<open>10\<close>
  \<^verbatim>\<open>conservatief\<close>. \<^verbatim>\<open>calculateAverage\<close> guards the same division and returns a point.
\<close>

theorem zero_weight_stats:
  "signedAverages exampleTable [2] True = Inr (NaN, NaN) \<and>
   map_sum id (map_option statsItems) (updateCoalitionStats exampleTable [2] True 0) =
     Inr (Some [Some ''0 zetels'', Some ''NaN% links'', Some ''NaN% progressief'']) \<and>
   calculateAverage exampleTable [2] True = Inr (Some (Fin 0, Fin 0))"
  by (simp add: exampleTable_def signedAverages_def updateCoalitionStats_def statsStep_def
      getParty_def weight_def horizontalSigned_def verticalSigned_def js_div_def
      statsItems_def statsItem_def show_nat.simps calculateAverage_def weightedStep_def)

section \<open>The URL\<close>

lemma params_delete_absent: "k \<notin> fst ` set (params_delete k q)"
  by (auto simp: params_delete_def)

lemma params_get_absent: "k \<notin> fst ` set q \<Longrightarrow> params_get k q = None"
  by (simp add: params_get_def map_of_eq_None_iff)

lemma params_get_set: "params_get k (params_set k v q) = Some v"
  by (induction q) (simp_all add: params_get_def)

lemma params_set_pairs: "filter (\<lambda>kv. fst kv = k) (params_set k v q) = [(k, v)]"
  by (induction q) (auto simp: params_delete_def filter_empty_conv)

lemma mapE_in_range:
  "\<forall>i\<in>set sel. i < length ps \<Longrightarrow>
   mapE (\<lambda>index. map_sum id shortName (getParty ps index)) sel =
     Inr (map (\<lambda>i. shortName (ps ! i)) sel)"
  by (induction sel) (simp_all add: getParty_def)

lemma calculateAverage_in_range:
  assumes "\<forall>i\<in>set sel. i < length ps"
  shows "\<exists>r. calculateAverage ps sel w = Inr r"
  using assms
  by (cases w) (simp_all add: calculateAverage_def forEach_weightedStep forEach_simpleStep)

lemma updateCompassMarker_in_range:
  assumes "\<forall>i\<in>set (selectedParties st). i < length (parties st)"
  shows "\<exists>d. updateCompassMarker st = Inr (st\<lparr>svgDisplay := d\<rparr>)"
proof (cases "svgDisplay st")
  case None
  then have "updateCompassMarker st = Inr (st\<lparr>svgDisplay := None\<rparr>)"
    by (simp add: updateCompassMarker_def)
  then show ?thesis ..
next
  case (Some d)
  obtain r where r: "calculateAverage (parties st) (selectedParties st) (weightedAverage st) = Inr r"
    using calculateAverage_in_range [OF assms] by blast
  show ?thesis
    using Some r
    by (cases r) (auto simp: updateCompassMarker_def Let_def)
qed

lemma updateCoalitionStats_in_range:
  assumes "\<forall>i\<in>set sel. i < length ps"
  shows "\<exists>r. updateCoalitionStats ps sel w n = Inr r"
  using assms by (simp add: updateCoalitionStats_def signedAverages_in_range)


lemma handlePartySelection_in_range:
  assumes len: "length (checkboxes st) \<le> length (parties st)"
  shows "\<exists>st'. handlePartySelection st = Inr st' \<and>
     parties st' = parties st \<and> checkboxes st' = checkboxes st \<and>
     weightedAverage st' = weightedAverage st \<and>
     selectedParties st' = checkedIndices (checkboxes st) \<and>
     search st' =
       updateQueryParams (map (\<lambda>i. shortName (parties st ! i)) (checkedIndices (checkboxes st)))
         (search st)"
proof -
  let ?sel = "checkedIndices (checkboxes st)"
  have inr: "\<forall>i\<in>set ?sel. i < length (parties st)"
    using len by (auto simp: checkedIndices_def)
  show ?thesis
  proof (cases "?sel = []")
    case True
    let ?st3 = "st\<lparr>selectedParties := [], selectedCount := ''Geselecteerd: geen'',
      coalitionStatsDisplay := False, search := updateQueryParams [] (search st)\<rparr>"
    have "\<forall>i\<in>set (selectedParties ?st3). i < length (parties ?st3)" by simp
    from updateCompassMarker_in_range [OF this]
    obtain d where "updateCompassMarker ?st3 = Inr (?st3\<lparr>svgDisplay := d\<rparr>)" ..
    then show ?thesis
      using True by (simp add: handlePartySelection_def Let_def)
  next
    case False
    obtain r where r: "updateCoalitionStats (parties st) ?sel (weightedAverage st)
        (\<Sum>i\<leftarrow>?sel. seatsOrZero (parties st ! i)) = Inr r"
      using updateCoalitionStats_in_range [OF inr] by blast
    obtain s where s: "r = Some s"
      using r False by (auto simp: updateCoalitionStats_def split: if_splits sum.splits)
    let ?names = "map (\<lambda>i. shortName (parties st ! i)) ?sel"
    let ?st3 = "st\<lparr>selectedParties := ?sel,
      selectedCount := ''Geselecteerd: '' @ js_join '', '' ?names,
      coalitionStatsContent := Some s, coalitionStatsDisplay := True,
      search := updateQueryParams ?names (search st)\<rparr>"
    have "\<forall>i\<in>set (selectedParties ?st3). i < length (parties ?st3)"
      using inr by simp
    from updateCompassMarker_in_range [OF this]
    obtain d where "updateCompassMarker ?st3 = Inr (?st3\<lparr>svgDisplay := d\<rparr>)" ..
    then show ?thesis
      using False r s inr
      by (simp add: handlePartySelection_def Let_def
          mapE_in_range computeSeatTotal_def forEach_seatStep)
  qed
qed

text \<open>
  Claim C9. \<^verbatim>\<open>updateQueryParams\<close> on no names leaves no pair with the key \<^verbatim>\<open>parties\<close> in
  the query, so that reading the key gives \<^verbatim>\<open>null\<close>; on at least one name it leaves
  exactly one pair with that key, whose value is the names joined by commas. When no
  checkbox of a page is checked, \<^verbatim>\<open>handlePartySelection\<close> returns normally with the empty
  selection and a query without the key.
\<close>

theorem parties_key:
  "''parties'' \<notin> fst ` set (updateQueryParams [] q) \<and>
   params_get ''parties'' (updateQueryParams [] q) = None \<and>
   (names \<noteq> [] \<longrightarrow>
      params_get ''parties'' (updateQueryParams names q) = Some (js_join '','' names) \<and>
      filter (\<lambda>kv. fst kv = ''parties'') (updateQueryParams names q) =
        [(''parties'', js_join '','' names)]) \<and>
   (length (checkboxes st) \<le> length (parties st) \<and> True \<notin> set (checkboxes st) \<longrightarrow>
      (\<exists>st'. handlePartySelection st = Inr st' \<and> selectedParties st' = [] \<and>
         ''parties'' \<notin> fst ` set (search st') \<and> params_get ''parties'' (search st') = None))"
proof (intro conjI impI)
  show a: "''parties'' \<notin> fst ` set (updateQueryParams [] q)" for q
    by (simp add: updateQueryParams_def params_delete_absent)
  show b: "params_get ''parties'' (updateQueryParams [] q) = None" for q
    by (rule params_get_absent) (rule a)
  show "params_get ''parties'' (updateQueryParams names q) = Some (js_join '','' names)"
    if "names \<noteq> []"
    using that by (simp add: updateQueryParams_def params_get_set)
  show "filter (\<lambda>kv. fst kv = ''parties'') (updateQueryParams names q) =
        [(''parties'', js_join '','' names)]"
    if "names \<noteq> []"
    using that by (simp add: updateQueryParams_def params_set_pairs)
  show "\<exists>st'. handlePartySelection st = Inr st' \<and> selectedParties st' = [] \<and>
         ''parties'' \<notin> fst ` set (search st') \<and> params_get ''parties'' (search st') = None"
    if h: "length (checkboxes st) \<le> length (parties st) \<and> True \<notin> set (checkboxes st)"
  proof -
    have e: "checkedIndices (checkboxes st) = []"
      using h by (auto simp: checkedIndices_def filter_empty_conv) (metis nth_mem)
    from h handlePartySelection_in_range [of st] e
    show ?thesis by (auto simp: a b)
  qed
qed

theorem parties_key_witness:
  "updateQueryParams [] [(''parties'', ''VVD''), (''lang'', ''nl''), (''parties'', [])] =
     [(''lang'', ''nl'')] \<and>
   updateQueryParams [''VVD'', ''D66''] [(''lang'', ''nl'')] =
     [(''lang'', ''nl''), (''parties'', ''VVD,D66'')] \<and>
   params_get ''parties'' (updateQueryParams [''VVD'', ''D66''] [(''parties'', ''SP'')]) =
     Some ''VVD,D66'' \<and>
   (\<exists>st'. handlePartySelection (examplePage\<lparr>search := [(''parties'', ''VVD'')]\<rparr>) = Inr st' \<and>
      selectedParties st' = [] \<and> params_get ''parties'' (search st') = None)"
proof -
  have n: "[''VVD'', ''D66''] \<noteq> []" by simp
  have p: "length (checkboxes (examplePage\<lparr>search := [(''parties'', ''VVD'')]\<rparr>)) \<le>
      length (parties (examplePage\<lparr>search := [(''parties'', ''VVD'')]\<rparr>)) \<and>
    True \<notin> set (checkboxes (examplePage\<lparr>search := [(''parties'', ''VVD'')]\<rparr>))"
    by (simp add: examplePage_def exampleTable_def)
  note th = parties_key [of "[(''parties'', ''SP'')]" "[''VVD'', ''D66'']"
      "examplePage\<lparr>search := [(''parties'', ''VVD'')]\<rparr>"]
  have "params_get ''parties'' (updateQueryParams [''VVD'', ''D66''] [(''parties'', ''SP'')]) =
     Some ''VVD,D66''"
    using th n by simp
  moreover have "\<exists>st'. handlePartySelection (examplePage\<lparr>search := [(''parties'', ''VVD'')]\<rparr>) = Inr st' \<and>
      selectedParties st' = [] \<and> params_get ''parties'' (search st') = None"
    using th p by blast
  moreover have "updateQueryParams [] [(''parties'', ''VVD''), (''lang'', ''nl''), (''parties'', [])] =
     [(''lang'', ''nl'')]"
    and "updateQueryParams [''VVD'', ''D66''] [(''lang'', ''nl'')] =
     [(''lang'', ''nl''), (''parties'', ''VVD,D66'')]"
    by (simp_all add: updateQueryParams_def params_delete_def)
  ultimately show ?thesis by simp
qed

lemma toUpperChar_comma [simp]: "toUpperChar c = CHR '','' \<longleftrightarrow> c = CHR '',''"
  by (auto simp: toUpperChar_def split: option.splits if_splits)

lemma isWhiteSpace_toUpperChar [simp]: "isWhiteSpace (toUpperChar c) \<longleftrightarrow> isWhiteSpace c"
  by (auto simp: toUpperChar_def isWhiteSpace_def split: option.splits if_splits)

lemma js_split_nonempty [simp]: "js_split s \<noteq> []"
  by (induction s) (auto split: list.splits)

lemma js_split_toUpperCase: "js_split (toUpperCase s) = map toUpperCase (js_split s)"
  by (induction s) (auto simp: toUpperCase_def split: list.splits)

lemma dropWhile_isWhiteSpace_upper:
  "dropWhile isWhiteSpace (map toUpperChar s) = map toUpperChar (dropWhile isWhiteSpace s)"
  by (induction s) simp_all

lemma js_trim_toUpperCase: "js_trim (toUpperCase s) = toUpperCase (js_trim s)"
  by (simp add: js_trim_def toUpperCase_def dropWhile_isWhiteSpace_upper rev_map)

lemma js_split_no_comma: "CHR '','' \<notin> set a \<Longrightarrow> js_split a = [a]"
  by (induction a) auto

lemma js_split_append_comma:
  "CHR '','' \<notin> set a \<Longrightarrow> js_split (a @ CHR '','' # rest) = a # js_split rest"
  by (induction a) auto

lemma js_split_join:
  "names \<noteq> [] \<Longrightarrow> \<forall>n\<in>set names. CHR '','' \<notin> set n \<Longrightarrow>
   js_split (js_join '','' names) = names"
  by (induction "'',''" names rule: js_join.induct)
     (simp_all add: js_split_no_comma js_split_append_comma)

lemma toUpperCase_join:
  "toUpperCase (js_join '','' names) = js_join '','' (map toUpperCase names)"
  by (induction "'',''" names rule: js_join.induct) (simp_all add: toUpperCase_def)

lemma js_join_nonempty:
  "names \<noteq> [] \<Longrightarrow> \<forall>n\<in>set names. n \<noteq> [] \<Longrightarrow> js_join '','' names \<noteq> []"
  by (induction "'',''" names rule: js_join.induct) simp_all

lemma toUpperCase_empty [simp]: "toUpperCase s = [] \<longleftrightarrow> s = []"
  by (simp add: toUpperCase_def)

lemma comma_toUpperChar [simp]: "CHR '','' = toUpperChar c \<longleftrightarrow> c = CHR '',''"
  by (metis toUpperChar_comma)

lemma comma_toUpperCase [simp]: "CHR '','' \<in> set (toUpperCase n) \<longleftrightarrow> CHR '','' \<in> set n"
  by (induction n) (auto simp: toUpperCase_def)

lemma getQueryParties_case_variant:
  assumes get: "params_get ''parties'' q = Some v"
    and var: "toUpperCase v = toUpperCase (js_join '','' names)"
    and ne: "names \<noteq> []"
    and safe: "\<forall>n\<in>set names. n \<noteq> [] \<and> CHR '','' \<notin> set n \<and> js_trim n = n"
  shows "getQueryParties q = map toUpperCase names"
proof -
  have "js_join '','' names \<noteq> []"
    using ne safe by (simp add: js_join_nonempty)
  then have "toUpperCase v \<noteq> []" using var by simp
  then have v: "v \<noteq> []" by simp
  have "map (\<lambda>p. toUpperCase (js_trim p)) (js_split v) =
        map js_trim (map toUpperCase (js_split v))"
    by (simp add: js_trim_toUpperCase)
  also have "\<dots> = map js_trim (js_split (js_join '','' (map toUpperCase names)))"
    by (simp add: js_split_toUpperCase [symmetric] var toUpperCase_join)
  also have "\<dots> = map js_trim (map toUpperCase names)"
    using ne safe by (simp add: js_split_join)
  also have "\<dots> = map toUpperCase names"
    using safe by (simp add: js_trim_toUpperCase)
  finally show ?thesis
    using get v by (simp add: getQueryParties_def)
qed

lemma fold_check_length:
  "length (fold (preSelectStep Q) (enumerate n ps) boxes) = length boxes"
  by (induction ps arbitrary: n boxes) (simp_all add: preSelectStep_def Let_def)

lemma fold_check_nth:
  "i < length boxes \<Longrightarrow>
   fold (preSelectStep Q) (enumerate n ps) boxes ! i =
   (boxes ! i \<or> (n \<le> i \<and> i < n + length ps \<and> toUpperCase (shortName (ps ! (i - n))) \<in> set Q))"
proof (induction ps arbitrary: n boxes)
  case Nil
  then show ?case by auto
next
  case (Cons p ps)
  show ?case
  proof (cases "toUpperCase (shortName p) \<in> set Q \<and> n < length boxes")
    case True
    then show ?thesis
      using Cons.prems Cons.IH [of "boxes[n := True]" "Suc n"]
      by (auto simp: preSelectStep_def Let_def nth_list_update nth_Cons' Suc_diff_le)
  next
    case False
    then show ?thesis
      using Cons.prems Cons.IH [of boxes "Suc n"]
      by (auto simp: preSelectStep_def Let_def nth_Cons' Suc_diff_le)
  qed
qed

lemma checkedIndices_mem: "i \<in> set (checkedIndices boxes) \<longleftrightarrow> i < length boxes \<and> boxes ! i"
  by (auto simp: checkedIndices_def)

lemma checkedIndices_empty: "checkedIndices boxes = [] \<longleftrightarrow> True \<notin> set boxes"
  by (auto simp: checkedIndices_def filter_empty_conv in_set_conv_nth)

lemma handlePartySelection_selected:
  assumes "length (checkboxes st) \<le> length (parties st)"
  shows "map_sum id selectedParties (handlePartySelection st) =
      Inr (checkedIndices (checkboxes st))"
    and "map_sum id (\<lambda>st. (selectedParties st, params_get ''parties'' (search st)))
        (handlePartySelection st) =
      Inr (checkedIndices (checkboxes st),
           params_get ''parties''
             (updateQueryParams
                (map (\<lambda>i. shortName (parties st ! i)) (checkedIndices (checkboxes st)))
                (search st)))"
  using handlePartySelection_in_range [OF assms] by auto

text \<open>The short names of the extractor's table are safe in this sense, in any selection
  and order without repetition.\<close>

lemma knownShortNames_safe:
  assumes "set ns \<subseteq> set knownShortNames" and "distinct ns"
  shows "urlSafeNames ns"
proof -
  have "distinct (map toUpperCase knownShortNames)"
    by (simp add: knownShortNames_def toUpperCase_def toUpperChar_def)
  then have "inj_on toUpperCase (set knownShortNames)"
    by (simp add: distinct_map)
  then have "inj_on toUpperCase (set ns)"
    using assms(1) by (rule inj_on_subset)
  then have d: "distinct (map toUpperCase ns)"
    using assms(2) by (simp add: distinct_map)
  have "\<forall>n\<in>set knownShortNames. n \<noteq> [] \<and> CHR '','' \<notin> set n \<and> js_trim n = n"
    by (simp add: knownShortNames_def js_trim_def isWhiteSpace_def)
  then have "\<forall>n\<in>set ns. n \<noteq> [] \<and> CHR '','' \<notin> set n \<and> js_trim n = n"
    using assms(1) by blast
  with d show ?thesis by (simp add: urlSafeNames_def)
qed

text \<open>
  Claim C1, as amended. Let the short names of the party table be pairwise different when
  upper-cased, non-empty, without a comma and without white space at either end, and let
  at least one checkbox be checked, so that \<^verbatim>\<open>handlePartySelection\<close> writes the selected
  short names to the \<^verbatim>\<open>parties\<close> parameter. Load the page afresh (the same table, no
  checkbox checked) from a URL whose \<^verbatim>\<open>parties\<close> parameter is the written value in any
  letter case. Then \<^verbatim>\<open>preSelectFromQuery\<close> returns normally, with the same selected indices
  and the same checkboxes checked as before. (As stated, the claim promises this for the
  short names of any loaded table; it fails for a name with a comma, for two names that
  are equal when upper-cased, for a name with white space at an end, and for the empty
  name.)
\<close>

theorem url_round_trip:
  assumes safe: "urlSafeNames (map shortName (parties st))"
    and len: "length (checkboxes st) = length (parties st)"
    and ne: "True \<in> set (checkboxes st)"
    and written: "handlePartySelection st = Inr st1"
    and u: "params_get ''parties'' (search st1) = Some u"
    and fresh: "parties st0 = parties st"
      "checkboxes st0 = replicate (length (parties st)) False"
    and v: "params_get ''parties'' (search st0) = Some v"
    and var: "toUpperCase v = toUpperCase u"
  shows "\<exists>st2. preSelectFromQuery st0 = Inr st2 \<and>
     selectedParties st2 = selectedParties st1 \<and> checkboxes st2 = checkboxes st"
proof -
  let ?ps = "parties st"
  let ?c = "checkboxes st"
  let ?sel = "checkedIndices ?c"
  let ?names = "map (\<lambda>i. shortName (?ps ! i)) ?sel"
  let ?Q = "map toUpperCase ?names"
  have sel_ne: "?sel \<noteq> []" using ne by (simp add: checkedIndices_empty)
  have sel_in: "\<forall>i\<in>set ?sel. i < length ?ps"
    using len by (simp add: checkedIndices_mem)
  from handlePartySelection_in_range [of st] len written
  have st1: "selectedParties st1 = ?sel" "search st1 = updateQueryParams ?names (search st)"
    by auto
  have "params_get ''parties'' (search st1) = Some (js_join '','' ?names)"
    using sel_ne by (simp add: st1 updateQueryParams_def params_get_set)
  then have u_eq: "u = js_join '','' ?names" using u by simp
  have names_safe: "\<forall>n\<in>set ?names. n \<noteq> [] \<and> CHR '','' \<notin> set n \<and> js_trim n = n"
    using safe sel_in by (auto simp: urlSafeNames_def)
  have names_ne: "?names \<noteq> []" using sel_ne by simp
  have var': "toUpperCase v = toUpperCase (js_join '','' ?names)"
    using var u_eq by simp
  have Q: "getQueryParties (search st0) = ?Q"
    by (rule getQueryParties_case_variant [OF v var' names_ne names_safe])
  have Q_ne: "length (getQueryParties (search st0)) \<noteq> 0"
    using sel_ne by (simp add: Q)
  let ?boxes = "fold (preSelectStep ?Q) (enumerate 0 ?ps) (replicate (length ?ps) False)"
  have inj: "toUpperCase (shortName (?ps ! i)) = toUpperCase (shortName (?ps ! j)) \<longleftrightarrow> i = j"
    if "i < length ?ps" "j < length ?ps" for i j
  proof -
    have "distinct (map (\<lambda>p. toUpperCase (shortName p)) ?ps)"
      using safe by (simp add: urlSafeNames_def comp_def)
    from nth_eq_iff_index_eq [OF this, of i j] that show ?thesis by simp
  qed
  have boxes: "?boxes = ?c"
  proof (rule nth_equalityI)
    show "length ?boxes = length ?c"
      by (simp add: fold_check_length len)
  next
    fix i assume "i < length ?boxes"
    then have i: "i < length ?ps" by (simp add: fold_check_length)
    have "?boxes ! i \<longleftrightarrow> toUpperCase (shortName (?ps ! i)) \<in> set ?Q"
      using i by (subst fold_check_nth) simp_all
    also have "\<dots> \<longleftrightarrow> (\<exists>j\<in>set ?sel. toUpperCase (shortName (?ps ! j)) = toUpperCase (shortName (?ps ! i)))"
      by (simp add: image_iff) metis
    also have "\<dots> \<longleftrightarrow> i \<in> set ?sel"
      using i sel_in inj by auto
    also have "\<dots> \<longleftrightarrow> ?c ! i"
      using i len by (simp add: checkedIndices_mem)
    finally show "?boxes ! i = ?c ! i" by simp
  qed
  have pre: "preSelectFromQuery st0 = handlePartySelection (st0\<lparr>checkboxes := ?c\<rparr>)"
    using Q_ne boxes by (simp add: preSelectFromQuery_def Let_def Q fresh)
  have "length (checkboxes (st0\<lparr>checkboxes := ?c\<rparr>)) \<le> length (parties (st0\<lparr>checkboxes := ?c\<rparr>))"
    using len fresh by simp
  from handlePartySelection_in_range [OF this]
  show ?thesis
    by (auto simp: pre st1)
qed

theorem url_round_trip_witness:
  "map_sum id selectedParties (handlePartySelection selectedPage) = Inr [0, 2, 3] \<and>
   map_sum id (params_get ''parties'' \<circ> search) (handlePartySelection selectedPage) =
     Inr (Some ''D66,NSC,Piratenpartij'') \<and>
   map_sum id selectedParties (preSelectFromQuery reloadedPage) = Inr [0, 2, 3] \<and>
   map_sum id checkboxes (preSelectFromQuery reloadedPage) = Inr [True, False, True, True]"
proof -
  have len: "length (checkboxes selectedPage) = length (parties selectedPage)"
    by (simp add: selectedPage_def exampleTable_def)
  have ci: "checkedIndices (checkboxes selectedPage) = [0, 2, 3]"
    by (simp add: selectedPage_def checkedIndices_def upt_rec)
  obtain st1 where w: "handlePartySelection selectedPage = Inr st1"
    and sel: "selectedParties st1 = [0, 2, 3]"
    and s1: "search st1 =
      updateQueryParams (map (\<lambda>i. shortName (parties selectedPage ! i)) [0, 2, 3])
        (search selectedPage)"
    using handlePartySelection_in_range [of selectedPage] len ci by auto
  have u: "params_get ''parties'' (search st1) = Some ''D66,NSC,Piratenpartij''"
    by (simp add: s1 selectedPage_def exampleTable_def updateQueryParams_def params_get_def)
  have safe: "urlSafeNames (map shortName (parties selectedPage))"
    by (simp add: selectedPage_def exampleTable_def urlSafeNames_def toUpperCase_def
        toUpperChar_def js_trim_def isWhiteSpace_def)
  have ne: "True \<in> set (checkboxes selectedPage)"
    by (simp add: selectedPage_def)
  have fresh: "parties reloadedPage = parties selectedPage"
    "checkboxes reloadedPage = replicate (length (parties selectedPage)) False"
    and v: "params_get ''parties'' (search reloadedPage) = Some ''d66,Nsc,PIRATENPARTIJ''"
    and var: "toUpperCase ''d66,Nsc,PIRATENPARTIJ'' = toUpperCase ''D66,NSC,Piratenpartij''"
    by (simp_all add: reloadedPage_def selectedPage_def exampleTable_def params_get_def
        toUpperCase_def toUpperChar_def numeral_eq_Suc)
  from url_round_trip [OF safe len ne w u fresh v var]
  obtain st2 where "preSelectFromQuery reloadedPage = Inr st2"
    and "selectedParties st2 = selectedParties st1"
    and "checkboxes st2 = checkboxes selectedPage"
    by blast
  then show ?thesis
    using w sel u by (simp add: selectedPage_def)
qed

text \<open>
  The claim as stated fails on tables whose short names are not of this kind. In each of
  the four cases below the page writes the \<^verbatim>\<open>parties\<close> parameter shown, and a fresh page
  with that very parameter restores another selection: a name with a comma is split in
  two pieces that match nothing; of two names equal when upper-cased both are checked; a
  name ending in a space is trimmed and matches nothing; the empty name gives the empty
  parameter, which is read as no parameter.
\<close>

theorem url_round_trip_counterexample:
  "map_sum id (\<lambda>st. (selectedParties st, params_get ''parties'' (search st)))
     (handlePartySelection (plainPage [''Jong, Vrij''] [True] None)) =
     Inr ([0], Some ''Jong, Vrij'') \<and>
   map_sum id selectedParties
     (preSelectFromQuery (plainPage [''Jong, Vrij''] [False] (Some ''Jong, Vrij''))) = Inr [] \<and>
   map_sum id (\<lambda>st. (selectedParties st, params_get ''parties'' (search st)))
     (handlePartySelection (plainPage [''Volt'', ''VOLT''] [True, False] None)) =
     Inr ([0], Some ''Volt'') \<and>
   map_sum id selectedParties
     (preSelectFromQuery (plainPage [''Volt'', ''VOLT''] [False, False] (Some ''Volt''))) =
     Inr [0, 1] \<and>
   map_sum id (\<lambda>st. (selectedParties st, params_get ''parties'' (search st)))
     (handlePartySelection (plainPage [''Vrij ''] [True] None)) =
     Inr ([0], Some ''Vrij '') \<and>
   map_sum id selectedParties
     (preSelectFromQuery (plainPage [''Vrij ''] [False] (Some ''Vrij ''))) = Inr [] \<and>
   map_sum id (\<lambda>st. (selectedParties st, params_get ''parties'' (search st)))
     (handlePartySelection (plainPage [[]] [True] None)) =
     Inr ([0], Some []) \<and>
   map_sum id selectedParties
     (preSelectFromQuery (plainPage [[]] [False] (Some []))) = Inr []"
  by (simp add: handlePartySelection_selected plainPage_def plainParty_def)
     (simp add: handlePartySelection_selected preSelectFromQuery_def getQueryParties_def
        params_get_def updateQueryParams_def checkedIndices_def upt_rec preSelectStep_def
        toUpperCase_def toUpperChar_def js_trim_def isWhiteSpace_def Let_def)

end
